theory Spec2Isabelle
  imports Main
begin

section \<open>Requests, responses and the environment of a handler\<close>

text \<open>
  Every route of the repository is an Express handler that reads the parsed request,
  awaits a few database statements (and, for the soundboard and the profile picture,
  two cloud calls) and sends one JSON response. The handlers are embedded as functions
  from the request, the environment's answers and the database state to the response
  and the new database state.

  A field of a parsed body is absent (\<open>None\<close>, JavaScript's \<open>undefined\<close>) or
  a value of the JSON type the route expects: a string for an email, a title, a message,
  a comment, a name and a text; an integer number for a rating; a boolean for
  is_speech_to_text. Payloads of another JSON type (\<open>null\<close> among them) are
  outside the model.
\<close>

text \<open>JavaScript's \<open>!x\<close> on a string field and on a number field.\<close>

fun falsy :: "string option \<Rightarrow> bool" where
  "falsy None = True"
| "falsy (Some s) = (s = [])"

fun falsy_num :: "int option \<Rightarrow> bool" where
  "falsy_num None = True"
| "falsy_num (Some n) = (n = 0)"

text \<open>
  A response body is a JSON value. A \<open>Date\<close> is written as its epoch milliseconds,
  and a member whose value is \<open>undefined\<close> is left out, as \<open>res.json\<close> does.
\<close>

datatype json =
    JNull
  | JBool bool
  | JNum int
  | JStr string
  | JArr "json list"
  | JObj "(string \<times> json) list"

record response =
  status :: nat
  body :: json

definition reply :: "nat \<Rightarrow> json \<Rightarrow> response" where
  "reply code b = \<lparr>status = code, body = b\<rparr>"

text \<open>
  The database can reject any statement (a lost connection, a constraint of the deployed
  schema). \<open>flt k = Some m\<close> says that the \<open>k\<close>-th statement the handler awaits
  (counted from 0) rejects with an error whose message is \<open>m\<close>; a rejected statement
  changes nothing.
\<close>

type_synonym faults = "nat \<Rightarrow> string option"

section \<open>riwayat.js: history keyed by email, messages in a table of their own\<close>

record history_row =
  hr_email :: string
  hr_id :: string
  hr_title :: string

record message_row =
  mr_message_id :: string
  mr_email :: string
  mr_message :: string
  mr_created_at :: nat
  mr_is_speech_to_text :: bool

record riwayat_db =
  HISTORY :: "history_row list"
  MESSAGE :: "message_row list"

definition History_findOne :: "string \<Rightarrow> riwayat_db \<Rightarrow> history_row option" where
  "History_findOne email db = find (\<lambda>h. hr_email h = email) (HISTORY db)"

definition History_create :: "history_row \<Rightarrow> riwayat_db \<Rightarrow> riwayat_db" where
  "History_create h db = db\<lparr>HISTORY := HISTORY db @ [h]\<rparr>"

definition History_destroy :: "string \<Rightarrow> riwayat_db \<Rightarrow> riwayat_db" where
  "History_destroy email db = db\<lparr>HISTORY := filter (\<lambda>h. hr_email h \<noteq> email) (HISTORY db)\<rparr>"

definition Message_create :: "message_row \<Rightarrow> riwayat_db \<Rightarrow> riwayat_db" where
  "Message_create m db = db\<lparr>MESSAGE := MESSAGE db @ [m]\<rparr>"

definition Message_destroy :: "string \<Rightarrow> riwayat_db \<Rightarrow> riwayat_db" where
  "Message_destroy email db = db\<lparr>MESSAGE := filter (\<lambda>m. mr_email m \<noteq> email) (MESSAGE db)\<rparr>"

definition message_only :: "string \<Rightarrow> json" where
  "message_only m = JObj [(''message'', JStr m)]"

definition not_found_riwayat :: "string \<Rightarrow> response" where
  "not_found_riwayat email =
     reply 404 (message_only (''History dengan email '' @ email @ '' tidak ditemukan''))"

text \<open>
  \<open>POST /api/history/email\<close> (riwayat.js, lines 87-114). \<open>uuid\<close> is what
  \<open>uuidv4()\<close> returns for this request. \<open>email\<close> is the primary key of HISTORY;
  the handler has just seen that no row holds it, so the insert cannot collide.
\<close>

definition post_history_email_riwayat ::
  "faults \<Rightarrow> string \<Rightarrow> string option \<Rightarrow> string option \<Rightarrow> riwayat_db \<Rightarrow> response \<times> riwayat_db" where
  "post_history_email_riwayat flt uuid email title db =
     (if falsy email \<or> falsy title
      then (reply 400 (message_only ''Email dan title harus diisi''), db)
      else
        (case flt 0 of
           Some m \<Rightarrow> (reply 500 (message_only m), db)
         | None \<Rightarrow>
             (case History_findOne (the email) db of
                Some existingHistory \<Rightarrow> (reply 400 (message_only ''Email sudah terdaftar''), db)
              | None \<Rightarrow>
                  (case flt 1 of
                     Some m \<Rightarrow> (reply 500 (message_only m), db)
                   | None \<Rightarrow>
                       (reply 201
                          (JObj [(''message'', JStr ''Data History berhasil dibuat''),
                                 (''data'', JObj [(''email'', JStr (the email)),
                                                  (''id'', JStr uuid),
                                                  (''title'', JStr (the title))])]),
                        History_create
                          \<lparr>hr_email = the email, hr_id = uuid, hr_title = the title\<rparr> db)))))"

text \<open>
  \<open>POST /api/history/:email\<close> (riwayat.js, lines 117-148): a new MESSAGE row for an
  email that has an identity. \<open>message_id\<close> is the primary key of MESSAGE, so the
  insert is rejected when the generated id is already there. \<open>now\<close> is
  \<open>new Date()\<close>.
\<close>

definition post_history_message_riwayat ::
  "faults \<Rightarrow> string \<Rightarrow> nat \<Rightarrow> string \<Rightarrow> string option \<Rightarrow> bool option \<Rightarrow> riwayat_db
     \<Rightarrow> response \<times> riwayat_db" where
  "post_history_message_riwayat flt uuid now email message is_speech_to_text db =
     (if falsy message \<or> is_speech_to_text = None
      then (reply 400 (message_only ''Message dan is_speech_to_text harus diisi''), db)
      else
        (case flt 0 of
           Some m \<Rightarrow> (reply 500 (message_only m), db)
         | None \<Rightarrow>
             (case History_findOne email db of
                None \<Rightarrow> (not_found_riwayat email, db)
              | Some existingHistory \<Rightarrow>
                  (case flt 1 of
                     Some m \<Rightarrow> (reply 500 (message_only m), db)
                   | None \<Rightarrow>
                       (if uuid \<in> set (map mr_message_id (MESSAGE db))
                        then (reply 500 (message_only ''Validation error''), db)
                        else
                          (reply 201
                             (JObj [(''message'', JStr ''Data Message berhasil dibuat''),
                                    (''data'', JObj [(''message_id'', JStr uuid),
                                                     (''email'', JStr email),
                                                     (''message'', JStr (the message)),
                                                     (''created_at'', JNum (int now)),
                                                     (''is_speech_to_text'', JBool (the is_speech_to_text))])]),
                           Message_create
                             \<lparr>mr_message_id = uuid, mr_email = email, mr_message = the message,
                              mr_created_at = now, mr_is_speech_to_text = the is_speech_to_text\<rparr> db))))))"

text \<open>
  \<open>DELETE /api/history/:email\<close> (riwayat.js, lines 175-191): look the identity up,
  then two separate statements, the messages first and the history row second. The
  file opens no transaction; whatever throws is caught and answered with 500.
\<close>

definition delete_history_riwayat :: "faults \<Rightarrow> string \<Rightarrow> riwayat_db \<Rightarrow> response \<times> riwayat_db" where
  "delete_history_riwayat flt email db =
     (case flt 0 of
        Some m \<Rightarrow> (reply 500 (message_only m), db)
      | None \<Rightarrow>
          (case History_findOne email db of
             None \<Rightarrow> (not_found_riwayat email, db)
           | Some history \<Rightarrow>
               (case flt 1 of
                  Some m \<Rightarrow> (reply 500 (message_only m), db)
                | None \<Rightarrow>
                    (let db1 = Message_destroy email db in
                     case flt 2 of
                       Some m \<Rightarrow> (reply 500 (message_only m), db1)
                     | None \<Rightarrow>
                         (let db2 = History_destroy email db1 in
                          (reply 200
                             (message_only (''History dan message dengan email '' @ email @ '' telah dihapus'')),
                           db2))))))"

section \<open>history.js: one history table, keyed by id\<close>

text \<open>
  The handlers of history.js pass what they catch to \<open>next(error)\<close>, so a handler
  ends by sending a response or by handing an error to the error middleware. The error
  middleware tells a Multer error and a Sequelize validation error from every other error.
\<close>

datatype js_error =
    JsError string
  | SequelizeValidationError "string list"
  | MulterError string

datatype outcome = Sent response | NextErr js_error

text \<open>
  The model \<open>History\<close> of history.js (lines 62-95), table \<open>history\<close>. The
  handlers treat \<open>message\<close> and \<open>is_speech_to_text\<close> as values that may be
  NULL (they write \<open>null\<close> there and relay what they read), so the row type has
  them optional. The model itself declares every attribute \<open>allowNull: false\<close>;
  what the table makes of that is \<open>insert_history\<close> below.
\<close>

record history_entry =
  he_id :: string
  he_title :: string
  he_message :: "string option"
  he_is_speech_to_text :: "bool option"
  he_email :: string
  he_created_at :: nat

type_synonym history_table = "history_entry list"

definition error_body :: "string \<Rightarrow> json" where
  "error_body m = JObj [(''status'', JStr ''error''), (''message'', JStr m)]"

definition json_opt_str :: "string option \<Rightarrow> json" where
  "json_opt_str v = (case v of None \<Rightarrow> JNull | Some s \<Rightarrow> JStr s)"

definition json_opt_bool :: "bool option \<Rightarrow> json" where
  "json_opt_bool v = (case v of None \<Rightarrow> JNull | Some b \<Rightarrow> JBool b)"

text \<open>
  The table is the one the program creates for itself: \<open>sequelize.sync()\<close>
  (line 386) builds it from the model, so every column is NOT NULL and \<open>id\<close> is
  the primary key. MySQL refuses a single-row INSERT that puts NULL into a NOT NULL
  column, and one whose primary key is already in the table.
\<close>

definition insert_history :: "history_entry \<Rightarrow> history_table \<Rightarrow> js_error + history_table" where
  "insert_history r tbl =
     (if he_message r = None then Inl (JsError ''Column message cannot be null'')
      else if he_is_speech_to_text r = None
      then Inl (JsError ''Column is_speech_to_text cannot be null'')
      else if he_id r \<in> set (map he_id tbl) then Inl (JsError ''Validation error'')
      else Inr (tbl @ [r]))"

text \<open>
  \<open>POST /api/history/email\<close> (history.js, lines 99-153): a raw SELECT by email, then
  a raw INSERT of the identity, with \<open>null\<close> as the third and the sixth value
  (\<open>message\<close> and \<open>is_speech_to_text\<close>, lines 131-134).
\<close>

definition post_history_email ::
  "faults \<Rightarrow> string \<Rightarrow> nat \<Rightarrow> string option \<Rightarrow> string option \<Rightarrow> history_table
     \<Rightarrow> outcome \<times> history_table" where
  "post_history_email flt uuid now title email tbl =
     (if falsy title \<or> falsy email
      then (Sent (reply 400 (error_body ''Title dan email harus diisi'')), tbl)
      else
        (case flt 0 of
           Some m \<Rightarrow> (NextErr (JsError m), tbl)
         | None \<Rightarrow>
             (let existingEntry = filter (\<lambda>r. he_email r = the email) tbl in
              if length existingEntry > 0
              then (Sent (reply 400 (error_body ''Email sudah terdaftar'')), tbl)
              else
                (let id = uuid; createdAt = now in
                 case flt 1 of
                   Some m \<Rightarrow> (NextErr (JsError m), tbl)
                 | None \<Rightarrow>
                     (case insert_history
                             \<lparr>he_id = id, he_title = the title, he_message = None,
                              he_is_speech_to_text = None, he_email = the email,
                              he_created_at = createdAt\<rparr> tbl of
                        Inl err \<Rightarrow> (NextErr err, tbl)
                      | Inr tbl' \<Rightarrow>
                          (Sent (reply 201
                             (JObj [(''status'', JStr ''success create data''),
                                    (''data'', JObj [(''id'', JStr id),
                                                     (''title'', JStr (the title)),
                                                     (''message'', JNull),
                                                     (''created_at'', JNum (int createdAt)),
                                                     (''email'', JStr (the email)),
                                                     (''is_speech_to_text'', JNull)])])),
                           tbl'))))))"

definition history_entry_json :: "history_entry \<Rightarrow> json" where
  "history_entry_json h =
     JObj [(''id'', JStr (he_id h)),
           (''title'', JStr (he_title h)),
           (''message'', json_opt_str (he_message h)),
           (''is_speech_to_text'', json_opt_bool (he_is_speech_to_text h)),
           (''email'', JStr (he_email h)),
           (''created_at'', JNum (int (he_created_at h)))]"

text \<open>
  \<open>POST /api/history/:email\<close> (history.js, lines 157-197): \<open>findOne\<close> takes the
  first row of the email; the handler sets three attributes of that instance and
  \<open>save()\<close> writes them to the row of the instance's primary key
  (\<open>UPDATE history SET ... WHERE id = ?\<close>).
\<close>

definition save_history :: "history_entry \<Rightarrow> history_table \<Rightarrow> history_table" where
  "save_history h tbl =
     map (\<lambda>r. if he_id r = he_id h
               then r\<lparr>he_message := he_message h,
                      he_is_speech_to_text := he_is_speech_to_text h,
                      he_created_at := he_created_at h\<rparr>
               else r) tbl"

definition post_history_message ::
  "faults \<Rightarrow> nat \<Rightarrow> string \<Rightarrow> string option \<Rightarrow> bool option \<Rightarrow> history_table
     \<Rightarrow> outcome \<times> history_table" where
  "post_history_message flt now email message is_speech_to_text tbl =
     (if falsy message \<or> is_speech_to_text = None
      then (Sent (reply 400 (error_body ''Message dan is_speech_to_text harus diisi'')), tbl)
      else
        (case flt 0 of
           Some m \<Rightarrow> (NextErr (JsError m), tbl)
         | None \<Rightarrow>
             (let existingHistory = find (\<lambda>r. he_email r = email) tbl; createdAt = now in
              case existingHistory of
                Some h \<Rightarrow>
                  (let h' = h\<lparr>he_message := message,
                              he_is_speech_to_text := is_speech_to_text,
                              he_created_at := createdAt\<rparr> in
                   case flt 1 of
                     Some m \<Rightarrow> (NextErr (JsError m), tbl)
                   | None \<Rightarrow>
                       (Sent (reply 200
                          (JObj [(''status'', JStr ''success update data''),
                                 (''data'', history_entry_json h')])),
                        save_history h' tbl))
              | None \<Rightarrow>
                  (Sent (reply 404
                     (error_body (''Tidak ditemukan history dengan email '' @ email))), tbl))))"

text \<open>
  \<open>ORDER BY created_at DESC\<close>: the newest row first. SQL leaves the order of rows
  with equal timestamps open; the model fixes one.
\<close>

definition order_by_desc :: "('a \<Rightarrow> nat) \<Rightarrow> 'a list \<Rightarrow> 'a list" where
  "order_by_desc created_at rows = rev (sort_key created_at rows)"

definition detection_type :: "bool option \<Rightarrow> json" where
  "detection_type s = JStr (if s = Some True then ''Speech to Text'' else ''Gesture Detection'')"

definition message_json :: "history_entry \<Rightarrow> json" where
  "message_json h =
     JArr [JObj [(''text'', json_opt_str (he_message h)),
                 (''created_at'', JNum (int (he_created_at h))),
                 (''is_speech_to_text'', json_opt_bool (he_is_speech_to_text h))]]"

text \<open>
  \<open>GET /api/history\<close> reads its rows by a raw SELECT, which does not go through
  the model: the driver hands the BOOLEAN column (a TINYINT) back as the number 1 or 0,
  and that number is what the handler relays and tests for \<open>detection_type\<close>.
  \<open>GET /api/history/:email\<close> reads through the model (\<open>findAll\<close>) and gets
  booleans.
\<close>

definition json_opt_tinyint :: "bool option \<Rightarrow> json" where
  "json_opt_tinyint v = (case v of None \<Rightarrow> JNull | Some b \<Rightarrow> JNum (if b then 1 else 0))"

definition message_json_raw :: "history_entry \<Rightarrow> json" where
  "message_json_raw h =
     JArr [JObj [(''text'', json_opt_str (he_message h)),
                 (''created_at'', JNum (int (he_created_at h))),
                 (''is_speech_to_text'', json_opt_tinyint (he_is_speech_to_text h))]]"

definition formatted_all :: "history_entry \<Rightarrow> json" where
  "formatted_all h =
     JObj [(''id'', JStr (he_id h)), (''email'', JStr (he_email h)),
           (''title'', JStr (he_title h)), (''message'', message_json_raw h),
           (''detection_type'', detection_type (he_is_speech_to_text h))]"

definition formatted_email :: "history_entry \<Rightarrow> json" where
  "formatted_email h =
     JObj [(''email'', JStr (he_email h)), (''id'', JStr (he_id h)),
           (''title'', JStr (he_title h)), (''message'', message_json h),
           (''detection_type'', detection_type (he_is_speech_to_text h))]"

text \<open>
  \<open>GET /api/history\<close> (history.js, lines 200-243): the query result is the array of
  rows; the handler answers 404 when it is empty. This handler answers its own errors.
\<close>

definition get_history :: "faults \<Rightarrow> history_table \<Rightarrow> outcome \<times> history_table" where
  "get_history flt tbl =
     (case flt 0 of
        Some m \<Rightarrow>
          (Sent (reply 500 (error_body (if m = [] then ''Something went wrong'' else m))), tbl)
      | None \<Rightarrow>
          (let histories = order_by_desc he_created_at tbl in
           if length histories = 0
           then (Sent (reply 404 (error_body ''History tidak ditemukan'')), tbl)
           else (Sent (reply 200
                   (JObj [(''status'', JStr ''success get data''),
                          (''data'', JArr (map formatted_all histories))])), tbl)))"

text \<open>\<open>GET /api/history/:email\<close> (history.js, lines 246-284).\<close>

definition get_history_email :: "faults \<Rightarrow> string \<Rightarrow> history_table \<Rightarrow> outcome \<times> history_table" where
  "get_history_email flt email tbl =
     (case flt 0 of
        Some m \<Rightarrow> (NextErr (JsError m), tbl)
      | None \<Rightarrow>
          (let histories = filter (\<lambda>r. he_email r = email) tbl in
           if length histories = 0
           then (Sent (reply 404 (error_body (''History untuk email '' @ email @ '' tidak ditemukan''))),
                 tbl)
           else (Sent (reply 200
                   (JObj [(''status'', JStr ''success get data''),
                          (''data'', JArr (map formatted_email histories))])), tbl)))"

definition deleted_body :: "string \<Rightarrow> json" where
  "deleted_body email =
     JObj [(''status'', JStr ''success''),
           (''message'', JStr (''History dengan Email '' @ email @ '' telah dihapus''))]"

text \<open>
  The first \<open>DELETE /api/history/:email\<close> (history.js, lines 287-311): all rows of the
  email are found and destroyed.
\<close>

definition delete_history_by_email :: "faults \<Rightarrow> string \<Rightarrow> history_table \<Rightarrow> outcome \<times> history_table" where
  "delete_history_by_email flt email tbl =
     (case flt 0 of
        Some m \<Rightarrow> (NextErr (JsError m), tbl)
      | None \<Rightarrow>
          (let histories = filter (\<lambda>r. he_email r = email) tbl in
           if length histories = 0
           then (Sent (reply 404 (error_body (''History untuk email '' @ email @ '' tidak ditemukan''))),
                 tbl)
           else
             (case flt 1 of
                Some m \<Rightarrow> (NextErr (JsError m), tbl)
              | None \<Rightarrow>
                  (Sent (reply 200 (deleted_body email)),
                   filter (\<lambda>r. he_email r \<noteq> email) tbl))))"

text \<open>
  The second \<open>DELETE /api/history/:email\<close> (history.js, lines 314-338): the parameter
  is looked up as a primary key (\<open>findByPk\<close>) and that one row is destroyed.
\<close>

definition delete_history_by_pk :: "faults \<Rightarrow> string \<Rightarrow> history_table \<Rightarrow> outcome \<times> history_table" where
  "delete_history_by_pk flt email tbl =
     (case flt 0 of
        Some m \<Rightarrow> (NextErr (JsError m), tbl)
      | None \<Rightarrow>
          (case find (\<lambda>r. he_id r = email) tbl of
             None \<Rightarrow> (Sent (reply 404 (error_body ''History tidak ditemukan'')), tbl)
           | Some history \<Rightarrow>
               (case flt 1 of
                  Some m \<Rightarrow> (NextErr (JsError m), tbl)
                | None \<Rightarrow>
                    (Sent (reply 200 (deleted_body email)),
                     filter (\<lambda>r. he_id r \<noteq> he_id history) tbl))))"

subsection \<open>The application of history.js: routes in registration order\<close>

datatype http_method = GET | POST | PUT | DELETE

record request =
  req_method :: http_method
  req_url :: string
  req_title :: "string option"
  req_email :: "string option"
  req_message :: "string option"
  req_is_speech_to_text :: "bool option"

record env =
  env_uuid :: string
  env_now :: nat
  env_uptime :: nat
  env_fault :: faults
  env_development :: bool

text \<open>The handlers, named after what history.js registers, in its order.\<close>

datatype handler =
    Welcome
  | Health
  | PostEmail
  | PostMessage
  | GetAll
  | GetByEmail
  | DeleteByEmail
  | DeleteByPk

definition routes :: "(http_method \<times> string \<times> handler) list" where
  "routes =
     [(GET, ''/'', Welcome),
      (GET, ''/health'', Health),
      (POST, ''/api/history/email'', PostEmail),
      (POST, ''/api/history/:email'', PostMessage),
      (GET, ''/api/history'', GetAll),
      (GET, ''/api/history/:email'', GetByEmail),
      (DELETE, ''/api/history/:email'', DeleteByEmail),
      (DELETE, ''/api/history/:email'', DeleteByPk)]"

definition welcome_banner :: response where
  "welcome_banner =
     reply 200
       (JObj [(''success'', JBool True),
              (''message'', JStr ''Welcome to Capstone API''),
              (''version'', JStr ''1.0.0''),
              (''endpoints'', JObj [(''soundboards'', JStr ''/api/soundboards''),
                                    (''history'', JStr ''/api/history''),
                                    (''profile'', JStr ''/api/profile''),
                                    (''feedback'', JStr ''/api/feedback'')])])"

definition health :: "env \<Rightarrow> response" where
  "health e =
     reply 200
       (JObj [(''success'', JBool True),
              (''timestamp'', JNum (int (env_now e))),
              (''uptime'', JNum (int (env_uptime e))),
              (''status'', JStr ''healthy'')])"

type_synonym params = "(string \<times> string) list"

definition param_email :: "params \<Rightarrow> string" where
  "param_email ps = the (map_of ps ''email'')"

fun run_handler :: "handler \<Rightarrow> env \<Rightarrow> params \<Rightarrow> request \<Rightarrow> history_table \<Rightarrow> outcome \<times> history_table" where
  "run_handler Welcome e ps req tbl = (Sent welcome_banner, tbl)"
| "run_handler Health e ps req tbl = (Sent (health e), tbl)"
| "run_handler PostEmail e ps req tbl =
     post_history_email (env_fault e) (env_uuid e) (env_now e) (req_title req) (req_email req) tbl"
| "run_handler PostMessage e ps req tbl =
     post_history_message (env_fault e) (env_now e) (param_email ps) (req_message req)
       (req_is_speech_to_text req) tbl"
| "run_handler GetAll e ps req tbl = get_history (env_fault e) tbl"
| "run_handler GetByEmail e ps req tbl = get_history_email (env_fault e) (param_email ps) tbl"
| "run_handler DeleteByEmail e ps req tbl = delete_history_by_email (env_fault e) (param_email ps) tbl"
| "run_handler DeleteByPk e ps req tbl = delete_history_by_pk (env_fault e) (param_email ps) tbl"

text \<open>The two middlewares registered after the routes (history.js, lines 341-376).\<close>

definition route_not_found :: response where
  "route_not_found = reply 404 (error_body ''Route not found'')"

definition error_middleware :: "bool \<Rightarrow> js_error \<Rightarrow> response" where
  "error_middleware dev err =
     (case err of
        MulterError m \<Rightarrow>
          reply 400 (JObj [(''status'', JStr ''error''), (''message'', JStr ''File upload error''),
                           (''error'', JStr m)])
      | SequelizeValidationError ms \<Rightarrow>
          reply 400 (JObj [(''status'', JStr ''error''), (''message'', JStr ''Validation error''),
                           (''errors'', JArr (map JStr ms))])
      | JsError m \<Rightarrow>
          reply 500 (JObj [(''status'', JStr ''error''), (''message'', JStr ''Internal server error''),
                           (''error'', JStr (if dev then m else ''Something went wrong''))]))"

text \<open>What the client gets from a handler of history.js.\<close>

definition respond_history :: "bool \<Rightarrow> outcome \<Rightarrow> response" where
  "respond_history dev out =
     (case out of Sent res \<Rightarrow> res | NextErr err \<Rightarrow> error_middleware dev err)"

text \<open>
  What a layer of the application did for a request, in the order the layers ran.
\<close>

datatype stage = Ran handler | NotFound | ErrorMiddleware

text \<open>
  Express walks the layers in registration order and runs the first route whose method
  and path match. A handler that sends a response ends the walk; \<open>next(error)\<close> skips
  every later route and the 404 middleware and runs the error middleware. No handler of
  history.js calls \<open>next()\<close> without an error. The path matcher \<open>mt\<close> is Express's:
  \<open>mt pattern url\<close> is the parameters when the url matches the pattern. \<open>cors\<close> and
  the body parsers, registered before the routes, pass a parsed request on.
\<close>

fun dispatch ::
  "(string \<Rightarrow> string \<Rightarrow> params option) \<Rightarrow> (http_method \<times> string \<times> handler) list \<Rightarrow> env \<Rightarrow> request
     \<Rightarrow> history_table \<Rightarrow> stage list \<times> response \<times> history_table" where
  "dispatch mt [] e req tbl = ([NotFound], route_not_found, tbl)"
| "dispatch mt ((m, pattern, h) # rest) e req tbl =
     (if m = req_method req
      then
        (case mt pattern (req_url req) of
           None \<Rightarrow> dispatch mt rest e req tbl
         | Some ps \<Rightarrow>
             (case run_handler h e ps req tbl of
                (Sent res, tbl') \<Rightarrow> ([Ran h], res, tbl')
              | (NextErr err, tbl') \<Rightarrow>
                  ([Ran h, ErrorMiddleware], error_middleware (env_development e) err, tbl')))
      else dispatch mt rest e req tbl)"

text \<open>
  One path matcher, for the examples: the url and the pattern are cut at \<open>/\<close>, a
  segment of the pattern that starts with \<open>:\<close> takes any non-empty segment as a
  parameter, every other segment must be equal. It is not the whole of Express's
  matcher, which also decodes percent escapes in a parameter, accepts a trailing
  \<open>/\<close> and ignores letter case; the two agree on a url that has none of these.
\<close>

fun split_path :: "string \<Rightarrow> string list" where
  "split_path [] = [[]]"
| "split_path (c # cs) =
     (if c = CHR ''/'' then [] # split_path cs
      else (case split_path cs of [] \<Rightarrow> [[c]] | seg # segs \<Rightarrow> (c # seg) # segs))"

fun match_segments :: "string list \<Rightarrow> string list \<Rightarrow> params option" where
  "match_segments [] [] = Some []"
| "match_segments (p # ps) (u # us) =
     (case p of
        [] \<Rightarrow> (if u = [] then match_segments ps us else None)
      | c # name \<Rightarrow>
          (if c = CHR '':''
           then (if u = [] then None
                 else map_option (\<lambda>r. (name, u) # r) (match_segments ps us))
           else (if p = u then match_segments ps us else None)))"
| "match_segments [] (u # us) = None"
| "match_segments (p # ps) [] = None"

definition segment_match :: "string \<Rightarrow> string \<Rightarrow> params option" where
  "segment_match pattern url = match_segments (split_path pattern) (split_path url)"

section \<open>The capstone application: soundboards, history, profile, feedback\<close>

text \<open>
  The file holds two copies of this application. The second copy (from line 420 on)
  checks that the cloud clients were constructed and passes errors to an error
  middleware; the first answers its own errors. History, profile and feedback are
  reached by raw SQL on tables the application does not declare.
\<close>

record soundboard_row =
  sb_id :: string
  sb_text :: string
  sb_audioUrl :: string
  sb_fileName :: string
  sb_createdAt :: nat
  sb_updatedAt :: nat

record capstone_history_row =
  ch_id :: nat
  ch_title :: string
  ch_message :: string
  ch_created_at :: nat
  ch_updated_at :: nat

record profile_row =
  pr_id :: nat
  pr_name :: string
  pr_profile_picture_url :: "string option"
  pr_created_at :: nat
  pr_updated_at :: nat

record feedback_row =
  fb_id :: nat
  fb_comment :: string
  fb_rating :: int
  fb_created_at :: nat
  fb_updated_at :: nat

record capstone_db =
  tbl_soundboards :: "soundboard_row list"
  tbl_history :: "capstone_history_row list"
  tbl_profile :: "profile_row list"
  tbl_feedback :: "feedback_row list"

text \<open>
  The cloud side of one request: whether the two clients were constructed at start-up,
  how the speech service answers this request's synthesis (\<open>Inl m\<close>: it rejects with
  message \<open>m\<close>; \<open>Inr audio\<close>: the audio content), how the bucket answers this
  request's upload (\<open>Some m\<close>: it rejects), and the configured bucket name. What the
  bucket then holds is not tracked: no handler reads it back.
\<close>

record cloud =
  ttsClient :: bool
  bucket :: bool
  synthesizeSpeech :: "string + nat list"
  file_save :: "string option"
  GCP_BUCKET_NAME :: string

definition generateSpeech :: "cloud \<Rightarrow> string \<Rightarrow> js_error + nat list" where
  "generateSpeech c text =
     (if \<not> ttsClient c then Inl (JsError ''Text-to-Speech client not initialized'')
      else
        (case synthesizeSpeech c of
           Inl m \<Rightarrow> Inl (JsError (''Error generating speech: '' @ m))
         | Inr audioContent \<Rightarrow> Inr audioContent))"

definition uploadToGCS :: "cloud \<Rightarrow> nat list \<Rightarrow> string \<Rightarrow> string \<Rightarrow> js_error + string" where
  "uploadToGCS c buffer filename contentType =
     (if \<not> bucket c then Inl (JsError ''Storage bucket not initialized'')
      else
        (case file_save c of
           Some m \<Rightarrow> Inl (JsError (''Error uploading to Google Cloud Storage: '' @ m))
         | None \<Rightarrow>
             Inr (''https://storage.googleapis.com/'' @ GCP_BUCKET_NAME c @ ''/'' @ filename)))"

definition failure :: "string \<Rightarrow> json" where
  "failure m = JObj [(''success'', JBool False), (''message'', JStr m)]"

definition soundboard_json :: "soundboard_row \<Rightarrow> json" where
  "soundboard_json r =
     JObj [(''id'', JStr (sb_id r)), (''text'', JStr (sb_text r)),
           (''audioUrl'', JStr (sb_audioUrl r)), (''fileName'', JStr (sb_fileName r)),
           (''createdAt'', JNum (int (sb_createdAt r))),
           (''updatedAt'', JNum (int (sb_updatedAt r)))]"

text \<open>
  \<open>POST /api/soundboards\<close> (second copy, lines 590-623): synthesis, then the upload
  under a generated name, then \<open>Soundboard.create\<close>, the only database statement.
  \<open>file_uuid\<close> is the handler's \<open>uuidv4()\<close>, \<open>row_uuid\<close> the default value
  Sequelize generates for the primary key \<open>id\<close>.
\<close>

definition post_soundboards ::
  "cloud \<Rightarrow> faults \<Rightarrow> string \<Rightarrow> string \<Rightarrow> nat \<Rightarrow> string option \<Rightarrow> capstone_db
     \<Rightarrow> outcome \<times> capstone_db" where
  "post_soundboards c flt file_uuid row_uuid now text db =
     (if falsy text
      then (Sent (reply 400 (JObj [(''success'', JBool False), (''error'', JStr ''Text is required'')])),
            db)
      else
        (case generateSpeech c (the text) of
           Inl err \<Rightarrow> (NextErr err, db)
         | Inr audioBuffer \<Rightarrow>
             (let fileName = file_uuid @ ''.mp3'' in
              case uploadToGCS c audioBuffer fileName ''audio/mpeg'' of
                Inl err \<Rightarrow> (NextErr err, db)
              | Inr audioUrl \<Rightarrow>
                  (case flt 0 of
                     Some m \<Rightarrow> (NextErr (JsError m), db)
                   | None \<Rightarrow>
                       (if row_uuid \<in> set (map sb_id (tbl_soundboards db))
                        then (NextErr (JsError ''Validation error''), db)
                        else
                          (let soundboard =
                                 \<lparr>sb_id = row_uuid, sb_text = the text, sb_audioUrl = audioUrl,
                                  sb_fileName = fileName, sb_createdAt = now, sb_updatedAt = now\<rparr>
                           in (Sent (reply 201
                                 (JObj [(''success'', JBool True),
                                        (''message'', JStr ''Soundboard created successfully''),
                                        (''data'', soundboard_json soundboard)])),
                               db\<lparr>tbl_soundboards := tbl_soundboards db @ [soundboard]\<rparr>)))))))"

text \<open>The error middleware of the second copy (lines 837-867).\<close>

definition error_middleware_capstone :: "bool \<Rightarrow> js_error \<Rightarrow> response" where
  "error_middleware_capstone dev err =
     (case err of
        MulterError m \<Rightarrow>
          reply 400 (JObj [(''success'', JBool False), (''message'', JStr ''File upload error''),
                           (''error'', JStr m)])
      | SequelizeValidationError ms \<Rightarrow>
          reply 400 (JObj [(''success'', JBool False), (''message'', JStr ''Validation error''),
                           (''errors'', JArr (map JStr ms))])
      | JsError m \<Rightarrow>
          reply 500 (JObj [(''success'', JBool False), (''message'', JStr ''Internal server error''),
                           (''error'', JStr (if dev then m else ''Something went wrong''))]))"

definition respond :: "bool \<Rightarrow> outcome \<Rightarrow> response" where
  "respond dev out = (case out of Sent res \<Rightarrow> res | NextErr err \<Rightarrow> error_middleware_capstone dev err)"

definition capstone_history_json :: "capstone_history_row \<Rightarrow> json" where
  "capstone_history_json r =
     JObj [(''id'', JNum (int (ch_id r))), (''title'', JStr (ch_title r)),
           (''message'', JStr (ch_message r)),
           (''created_at'', JNum (int (ch_created_at r))),
           (''updated_at'', JNum (int (ch_updated_at r)))]"

text \<open>
  \<open>GET /api/history\<close> (second copy, lines 675-689). With
  \<open>type: QueryTypes.SELECT\<close> the query resolves to the array of rows, and the
  handler's \<open>const [histories] = ...\<close> takes that array apart: \<open>histories\<close> is its
  first row, or \<open>undefined\<close> when there is none, and \<open>res.json\<close> leaves an
  undefined member out.
\<close>

definition get_history_capstone :: "faults \<Rightarrow> capstone_db \<Rightarrow> outcome \<times> capstone_db" where
  "get_history_capstone flt db =
     (case flt 0 of
        Some m \<Rightarrow> (NextErr (JsError m), db)
      | None \<Rightarrow>
          (case order_by_desc ch_created_at (tbl_history db) of
             [] \<Rightarrow> (Sent (reply 200 (JObj [(''success'', JBool True)])), db)
           | histories # others \<Rightarrow>
               (Sent (reply 200 (JObj [(''success'', JBool True),
                                       (''data'', capstone_history_json histories)])), db)))"

subsection \<open>The profile\<close>

record uploaded_file =
  uf_originalname :: string
  uf_mimetype :: string
  uf_buffer :: "nat list"

definition allowedMimes :: "string list" where
  "allowedMimes = [''image/jpeg'', ''image/png'', ''image/jpg'']"

text \<open>
  \<open>upload.single("profile_picture")\<close>: multer asks the file filter first and stops
  a file that is longer than the limit of 5 MB with a \<open>MulterError\<close>. The two copies
  differ in the filter's message.
\<close>

definition upload_single :: "string \<Rightarrow> uploaded_file option \<Rightarrow> js_error + uploaded_file option" where
  "upload_single filter_message file =
     (case file of
        None \<Rightarrow> Inr None
      | Some f \<Rightarrow>
          (if uf_mimetype f \<in> set allowedMimes
           then (if length (uf_buffer f) > 5 * 1024 * 1024
                 then Inl (MulterError ''File too large'')
                 else Inr (Some f))
           else Inl (JsError filter_message)))"

text \<open>\<open>Date.now()\<close> inside a template string: the decimal digits of the number.\<close>

definition digit_char :: "nat \<Rightarrow> char" where
  "digit_char n = ''0123456789'' ! n"

function string_of_nat :: "nat \<Rightarrow> string" where
  "string_of_nat n =
     (if n < 10 then [digit_char n] else string_of_nat (n div 10) @ [digit_char (n mod 10)])"
  by pat_completeness auto
termination
  by (relation "measure id") auto

declare string_of_nat.simps [simp del]

definition profile_data :: "string \<Rightarrow> string option \<Rightarrow> json" where
  "profile_data name profilePictureUrl =
     JObj [(''success'', JBool True),
           (''data'', JObj [(''name'', JStr name),
                            (''profile_picture_url'', json_opt_str profilePictureUrl)])]"

text \<open>
  The two UPDATE statements of the second copy: both are \<open>WHERE id = 1\<close>, and only
  the first sets the picture.
\<close>

definition update_profile :: "string \<Rightarrow> string option \<Rightarrow> nat \<Rightarrow> profile_row list \<Rightarrow> profile_row list" where
  "update_profile name profilePictureUrl now rows =
     map (\<lambda>p. if pr_id p = 1
               then (if falsy profilePictureUrl
                     then p\<lparr>pr_name := name, pr_updated_at := now\<rparr>
                     else p\<lparr>pr_name := name, pr_profile_picture_url := profilePictureUrl,
                            pr_updated_at := now\<rparr>)
               else p) rows"

text \<open>\<open>PUT /api/profile\<close>, the handler of the second copy (lines 743-785).\<close>

definition put_profile_handler ::
  "cloud \<Rightarrow> faults \<Rightarrow> nat \<Rightarrow> string option \<Rightarrow> uploaded_file option \<Rightarrow> capstone_db
     \<Rightarrow> outcome \<times> capstone_db" where
  "put_profile_handler c flt now name file db =
     (if falsy name then (Sent (reply 400 (failure ''Name is required'')), db)
      else
        (case (case file of
                 None \<Rightarrow> Inr None
               | Some f \<Rightarrow>
                   (case uploadToGCS c (uf_buffer f)
                           (''profiles/'' @ string_of_nat now @ ''-'' @ uf_originalname f) (uf_mimetype f) of
                      Inl err \<Rightarrow> Inl err
                    | Inr url \<Rightarrow> Inr (Some url))) of
           Inl err \<Rightarrow> (NextErr err, db)
         | Inr profilePictureUrl \<Rightarrow>
             (case flt 0 of
                Some m \<Rightarrow> (NextErr (JsError m), db)
              | None \<Rightarrow>
                  (Sent (reply 200 (profile_data (the name) profilePictureUrl)),
                   db\<lparr>tbl_profile := update_profile (the name) profilePictureUrl now (tbl_profile db)\<rparr>))))"

text \<open>The whole route of the second copy: multer, the handler, the error middleware.\<close>

definition put_profile ::
  "bool \<Rightarrow> cloud \<Rightarrow> faults \<Rightarrow> nat \<Rightarrow> string option \<Rightarrow> uploaded_file option \<Rightarrow> capstone_db
     \<Rightarrow> response \<times> capstone_db" where
  "put_profile dev c flt now name file db =
     (case upload_single ''File harus berupa gambar (JPG, JPEG, atau PNG).'' file of
        Inl err \<Rightarrow> (error_middleware_capstone dev err, db)
      | Inr file' \<Rightarrow>
          (case put_profile_handler c flt now name file' db of
             (out, db') \<Rightarrow> (respond dev out, db')))"

text \<open>
  The first copy (lines 291-336): its \<open>uploadToGCS\<close> (lines 102-120) has no check
  of the bucket, its UPDATE statements do not set \<open>updated_at\<close>, the handler answers
  its own errors with 500 and the error's message, and so does its error middleware
  (lines 382-388) for what multer passes on.
\<close>

definition uploadToGCS_first :: "cloud \<Rightarrow> nat list \<Rightarrow> string \<Rightarrow> string \<Rightarrow> js_error + string" where
  "uploadToGCS_first c buffer filename contentType =
     (case file_save c of
        Some m \<Rightarrow> Inl (JsError (''Error uploading to Google Cloud Storage: '' @ m))
      | None \<Rightarrow>
          Inr (''https://storage.googleapis.com/'' @ GCP_BUCKET_NAME c @ ''/'' @ filename))"

definition update_profile_first :: "string \<Rightarrow> string option \<Rightarrow> profile_row list \<Rightarrow> profile_row list" where
  "update_profile_first name profilePictureUrl rows =
     map (\<lambda>p. if pr_id p = 1
               then (if falsy profilePictureUrl
                     then p\<lparr>pr_name := name\<rparr>
                     else p\<lparr>pr_name := name, pr_profile_picture_url := profilePictureUrl\<rparr>)
               else p) rows"

definition error_message :: "js_error \<Rightarrow> string" where
  "error_message err =
     (case err of JsError m \<Rightarrow> m | SequelizeValidationError ms \<Rightarrow> ''Validation error''
      | MulterError m \<Rightarrow> m)"

definition put_profile_first ::
  "cloud \<Rightarrow> faults \<Rightarrow> nat \<Rightarrow> string option \<Rightarrow> uploaded_file option \<Rightarrow> capstone_db
     \<Rightarrow> response \<times> capstone_db" where
  "put_profile_first c flt now name file db =
     (case upload_single ''File harus berupa gambar.'' file of
        Inl err \<Rightarrow> (reply 500 (failure (error_message err)), db)
      | Inr file' \<Rightarrow>
          (if falsy name then (reply 400 (failure ''Name is required''), db)
           else
             (case (case file' of
                      None \<Rightarrow> Inr None
                    | Some f \<Rightarrow>
                        (case uploadToGCS_first c (uf_buffer f)
                                (''profiles/'' @ string_of_nat now @ ''-'' @ uf_originalname f)
                                (uf_mimetype f) of
                           Inl err \<Rightarrow> Inl err
                         | Inr url \<Rightarrow> Inr (Some url))) of
                Inl err \<Rightarrow> (reply 500 (failure (error_message err)), db)
              | Inr profilePictureUrl \<Rightarrow>
                  (case flt 0 of
                     Some m \<Rightarrow> (reply 500 (failure m), db)
                   | None \<Rightarrow>
                       (reply 200 (profile_data (the name) profilePictureUrl),
                        db\<lparr>tbl_profile :=
                             update_profile_first (the name) profilePictureUrl (tbl_profile db)\<rparr>)))))"

subsection \<open>Feedback\<close>

text \<open>The id MySQL's AUTO_INCREMENT gives the next row of a table that never deletes.\<close>

definition next_id :: "nat list \<Rightarrow> nat" where
  "next_id ids = Suc (fold max ids 0)"

text \<open>
  \<open>rating < 1 || rating > 4\<close> is reached only with a rating that passed \<open>!rating\<close>.
  \<open>POST /api/feedback\<close> (second copy, lines 789-826); \<open>result\<close> is the insert id.
\<close>

definition post_feedback ::
  "faults \<Rightarrow> nat \<Rightarrow> string option \<Rightarrow> int option \<Rightarrow> capstone_db \<Rightarrow> outcome \<times> capstone_db" where
  "post_feedback flt now comment rating db =
     (if falsy comment \<or> falsy_num rating
      then (Sent (reply 400 (failure ''Komentar dan rating harus diisi'')), db)
      else if the rating < 1 \<or> the rating > 4
      then (Sent (reply 400 (failure ''Rating harus antara 1-4'')), db)
      else
        (case flt 0 of
           Some m \<Rightarrow> (NextErr (JsError m), db)
         | None \<Rightarrow>
             (let result = next_id (map fb_id (tbl_feedback db)) in
              (Sent (reply 201
                 (JObj [(''success'', JBool True),
                        (''data'', JObj [(''id'', JNum (int result)),
                                         (''comment'', JStr (the comment)),
                                         (''rating'', JNum (the rating))])])),
               db\<lparr>tbl_feedback := tbl_feedback db @
                    [\<lparr>fb_id = result, fb_comment = the comment, fb_rating = the rating,
                      fb_created_at = now, fb_updated_at = now\<rparr>]\<rparr>))))"

section \<open>Sample states and environments\<close>

definition no_fault :: faults where
  "no_fault k = None"

definition fault_at :: "nat \<Rightarrow> faults" where
  "fault_at n k = (if k = n then Some ''connection lost'' else None)"

definition riwayat_sample :: riwayat_db where
  "riwayat_sample =
     \<lparr>HISTORY = [\<lparr>hr_email = ''a@x.id'', hr_id = ''h1'', hr_title = ''Halo''\<rparr>,
                 \<lparr>hr_email = ''b@x.id'', hr_id = ''h2'', hr_title = ''Pagi''\<rparr>],
      MESSAGE = [\<lparr>mr_message_id = ''m1'', mr_email = ''a@x.id'', mr_message = ''apa kabar'',
                  mr_created_at = 5, mr_is_speech_to_text = True\<rparr>,
                 \<lparr>mr_message_id = ''m2'', mr_email = ''b@x.id'', mr_message = ''baik'',
                  mr_created_at = 6, mr_is_speech_to_text = False\<rparr>]\<rparr>"

definition history_sample :: history_table where
  "history_sample =
     [\<lparr>he_id = ''h1'', he_title = ''Halo'', he_message = Some ''apa kabar'',
       he_is_speech_to_text = Some True, he_email = ''a@x.id'', he_created_at = 5\<rparr>,
      \<lparr>he_id = ''h2'', he_title = ''Pagi'', he_message = Some ''selamat pagi'',
       he_is_speech_to_text = Some False, he_email = ''b@x.id'', he_created_at = 9\<rparr>]"

definition cloud_ok :: cloud where
  "cloud_ok =
     \<lparr>ttsClient = True, bucket = True, synthesizeSpeech = Inr [73, 68, 51],
      file_save = None, GCP_BUCKET_NAME = ''handlips''\<rparr>"

definition capstone_sample :: capstone_db where
  "capstone_sample =
     \<lparr>tbl_soundboards = [],
      tbl_history =
        [\<lparr>ch_id = 1, ch_title = ''Contoh Judul'', ch_message = ''Ini adalah isi pesan'',
          ch_created_at = 10, ch_updated_at = 10\<rparr>,
         \<lparr>ch_id = 2, ch_title = ''Judul kedua'', ch_message = ''Pesan kedua'',
          ch_created_at = 20, ch_updated_at = 20\<rparr>],
      tbl_profile =
        [\<lparr>pr_id = 1, pr_name = ''Budi'', pr_profile_picture_url = Some ''https://old/p.png'',
          pr_created_at = 1, pr_updated_at = 1\<rparr>],
      tbl_feedback = []\<rparr>"







definition env_sample :: env where
  "env_sample =
     \<lparr>env_uuid = ''h9'', env_now = 80, env_uptime = 3, env_fault = no_fault,
      env_development = False\<rparr>"

definition delete_request :: request where
  "delete_request =
     \<lparr>req_method = DELETE, req_url = ''/api/history/a@x.id'', req_title = None,
      req_email = None, req_message = None, req_is_speech_to_text = None\<rparr>"

section \<open>Deleting a history with its messages (riwayat.js)\<close>

text \<open>
  C1, as the code has it. For an email \<open>e\<close> that has an identity row:
  when the lookup and both DELETE statements go through, the answer is 200 and
  afterwards neither the history row nor any message of \<open>e\<close> is left, while the rows
  of other emails stay; when the lookup or the DELETE of the messages is rejected, the
  answer is 500 and nothing was deleted; when the DELETE of the history row is rejected
  after the messages were deleted, the answer is 500, the history row is still there and
  the messages of \<open>e\<close> are gone. The two statements are not in a transaction.
\<close>

theorem delete_history_cascade:
  assumes "History_findOne e db = Some h"
  shows "(flt 0 = None \<and> flt 1 = None \<and> flt 2 = None \<longrightarrow>
            status (fst (delete_history_riwayat flt e db)) = 200
          \<and> History_findOne e (snd (delete_history_riwayat flt e db)) = None
          \<and> filter (\<lambda>m. mr_email m = e) (MESSAGE (snd (delete_history_riwayat flt e db))) = []
          \<and> HISTORY (snd (delete_history_riwayat flt e db))
              = filter (\<lambda>r. hr_email r \<noteq> e) (HISTORY db)
          \<and> MESSAGE (snd (delete_history_riwayat flt e db))
              = filter (\<lambda>m. mr_email m \<noteq> e) (MESSAGE db))
       \<and> (flt 0 \<noteq> None \<or> flt 1 \<noteq> None \<longrightarrow>
            status (fst (delete_history_riwayat flt e db)) = 500
          \<and> snd (delete_history_riwayat flt e db) = db)
       \<and> (flt 0 = None \<and> flt 1 = None \<and> flt 2 \<noteq> None \<longrightarrow>
            status (fst (delete_history_riwayat flt e db)) = 500
          \<and> HISTORY (snd (delete_history_riwayat flt e db)) = HISTORY db
          \<and> MESSAGE (snd (delete_history_riwayat flt e db))
              = filter (\<lambda>m. mr_email m \<noteq> e) (MESSAGE db))"
  using assms
  by (auto simp: delete_history_riwayat_def reply_def History_findOne_def History_destroy_def
      Message_destroy_def Let_def find_None_iff split: option.splits)

text \<open>The sample state, no statement rejected: both are gone, the other email's message stays.\<close>

theorem delete_history_cascade_witness:
  "History_findOne ''a@x.id'' riwayat_sample
     = Some \<lparr>hr_email = ''a@x.id'', hr_id = ''h1'', hr_title = ''Halo''\<rparr>
   \<and> status (fst (delete_history_riwayat no_fault ''a@x.id'' riwayat_sample)) = 200
   \<and> History_findOne ''a@x.id'' (snd (delete_history_riwayat no_fault ''a@x.id'' riwayat_sample))
       = None
   \<and> MESSAGE (snd (delete_history_riwayat no_fault ''a@x.id'' riwayat_sample))
       = [\<lparr>mr_message_id = ''m2'', mr_email = ''b@x.id'', mr_message = ''baik'',
           mr_created_at = 6, mr_is_speech_to_text = False\<rparr>]"
proof -
  have h: "History_findOne ''a@x.id'' riwayat_sample
     = Some \<lparr>hr_email = ''a@x.id'', hr_id = ''h1'', hr_title = ''Halo''\<rparr>"
    by (simp add: History_findOne_def riwayat_sample_def)
  from delete_history_cascade [OF h, of no_fault] h show ?thesis
    by (simp add: no_fault_def riwayat_sample_def)
qed

text \<open>
  C1 as stated fails: when the third statement (the DELETE of the history row) is
  rejected, the call fails with 500, yet the messages of the email are already deleted
  and the history row is still there.
\<close>

theorem delete_history_not_atomic:
  "History_findOne ''a@x.id'' riwayat_sample
     = Some \<lparr>hr_email = ''a@x.id'', hr_id = ''h1'', hr_title = ''Halo''\<rparr>
   \<and> filter (\<lambda>m. mr_email m = ''a@x.id'') (MESSAGE riwayat_sample) \<noteq> []
   \<and> status (fst (delete_history_riwayat (fault_at 2) ''a@x.id'' riwayat_sample)) = 500
   \<and> History_findOne ''a@x.id''
        (snd (delete_history_riwayat (fault_at 2) ''a@x.id'' riwayat_sample))
       = Some \<lparr>hr_email = ''a@x.id'', hr_id = ''h1'', hr_title = ''Halo''\<rparr>
   \<and> filter (\<lambda>m. mr_email m = ''a@x.id'')
        (MESSAGE (snd (delete_history_riwayat (fault_at 2) ''a@x.id'' riwayat_sample))) = []"
  by (simp add: delete_history_riwayat_def History_findOne_def Message_destroy_def
      History_destroy_def fault_at_def riwayat_sample_def reply_def message_only_def)

section \<open>Creating an identity (riwayat.js and history.js)\<close>

lemma find_append_new:
  "find P xs = None \<Longrightarrow> P x \<Longrightarrow> find P (xs @ [x]) = Some x"
  by (induction xs) (auto split: if_splits)

text \<open>
  riwayat.js inserts the three columns its model has. For a non-empty title and a
  non-empty email that no row holds yet, with the database accepting the statements,
  \<open>POST /api/history/email\<close> answers 201 with the new identity and appends exactly
  that row. After it, every further call with the same email leaves the database as it
  is, and answers 400 "Email sudah terdaftar" whenever its title is there and its lookup
  goes through.
\<close>

lemma create_identity_once_riwayat:
  assumes "t \<noteq> []" and "e \<noteq> []"
    and "History_findOne e db = None" and "flt 0 = None" and "flt 1 = None"
  shows "post_history_email_riwayat flt u (Some e) (Some t) db
             = (reply 201
                  (JObj [(''message'', JStr ''Data History berhasil dibuat''),
                         (''data'', JObj [(''email'', JStr e), (''id'', JStr u), (''title'', JStr t)])]),
                db\<lparr>HISTORY := HISTORY db @ [\<lparr>hr_email = e, hr_id = u, hr_title = t\<rparr>]\<rparr>)
         \<and> (\<forall>flt2 u2 t2.
               snd (post_history_email_riwayat flt2 u2 (Some e) t2
                      (snd (post_history_email_riwayat flt u (Some e) (Some t) db)))
                 = snd (post_history_email_riwayat flt u (Some e) (Some t) db)
             \<and> (flt2 0 = None \<and> \<not> falsy t2 \<longrightarrow>
                  fst (post_history_email_riwayat flt2 u2 (Some e) t2
                         (snd (post_history_email_riwayat flt u (Some e) (Some t) db)))
                    = reply 400 (message_only ''Email sudah terdaftar'')))"
proof
  let ?db1 = "db\<lparr>HISTORY := HISTORY db @ [\<lparr>hr_email = e, hr_id = u, hr_title = t\<rparr>]\<rparr>"
  show first: "post_history_email_riwayat flt u (Some e) (Some t) db
             = (reply 201
                  (JObj [(''message'', JStr ''Data History berhasil dibuat''),
                         (''data'', JObj [(''email'', JStr e), (''id'', JStr u), (''title'', JStr t)])]),
                ?db1)"
    using assms by (simp add: post_history_email_riwayat_def History_create_def)
  have found: "History_findOne e ?db1 = Some \<lparr>hr_email = e, hr_id = u, hr_title = t\<rparr>"
    using assms(3) by (simp add: History_findOne_def find_append_new)
  show "\<forall>flt2 u2 t2.
               snd (post_history_email_riwayat flt2 u2 (Some e) t2
                      (snd (post_history_email_riwayat flt u (Some e) (Some t) db)))
                 = snd (post_history_email_riwayat flt u (Some e) (Some t) db)
             \<and> (flt2 0 = None \<and> \<not> falsy t2 \<longrightarrow>
                  fst (post_history_email_riwayat flt2 u2 (Some e) t2
                         (snd (post_history_email_riwayat flt u (Some e) (Some t) db)))
                    = reply 400 (message_only ''Email sudah terdaftar''))"
    unfolding first snd_conv using found assms(1,2)
    by (auto simp: post_history_email_riwayat_def split: option.splits)
qed

lemma create_identity_once_riwayat_example:
  "post_history_email_riwayat no_fault ''h3'' (Some ''c@x.id'') (Some ''Sore'') riwayat_sample
     = (reply 201
          (JObj [(''message'', JStr ''Data History berhasil dibuat''),
                 (''data'', JObj [(''email'', JStr ''c@x.id''), (''id'', JStr ''h3''),
                                  (''title'', JStr ''Sore'')])]),
        riwayat_sample\<lparr>HISTORY := HISTORY riwayat_sample
                          @ [\<lparr>hr_email = ''c@x.id'', hr_id = ''h3'', hr_title = ''Sore''\<rparr>]\<rparr>)"
proof -
  have "History_findOne ''c@x.id'' riwayat_sample = None"
    by (simp add: History_findOne_def riwayat_sample_def)
  then show ?thesis
    using create_identity_once_riwayat [where t = "''Sore''" and e = "''c@x.id''"
        and db = riwayat_sample and flt = no_fault and u = "''h3''"]
    by (simp add: no_fault_def)
qed

text \<open>
  C3, evaluated on history.js. Its INSERT writes NULL into \<open>message\<close> and
  \<open>is_speech_to_text\<close>, which the table created from its own model refuses. So for
  every request, every database behaviour and every table, \<open>POST /api/history/email\<close>
  of history.js is never answered 201 and never adds a row. On the sample table, for a
  non-empty title and an email that no row holds, with no statement lost, the handler
  hands the refusal to the error middleware, and the client gets 500.
\<close>

theorem create_identity_refused_history_js:
  "status (respond_history dev (fst (post_history_email flt u n title email tbl))) \<noteq> 201
   \<and> snd (post_history_email flt u n title email tbl) = tbl
   \<and> filter (\<lambda>r. he_email r = ''c@x.id'') history_sample = []
   \<and> post_history_email no_fault ''h3'' 12 (Some ''Sore'') (Some ''c@x.id'') history_sample
       = (NextErr (JsError ''Column message cannot be null''), history_sample)
   \<and> respond_history False
        (fst (post_history_email no_fault ''h3'' 12 (Some ''Sore'') (Some ''c@x.id'') history_sample))
       = reply 500 (JObj [(''status'', JStr ''error''), (''message'', JStr ''Internal server error''),
                          (''error'', JStr ''Something went wrong'')])"
proof (intro conjI)
  have refused: "\<exists>m. insert_history
            \<lparr>he_id = i, he_title = t, he_message = None, he_is_speech_to_text = None,
             he_email = e, he_created_at = c\<rparr> tbl = Inl (JsError m)" for i t e c
    by (simp add: insert_history_def)
  have out: "(\<exists>m. fst (post_history_email flt u n title email tbl) = Sent (reply 400 (error_body m)))
           \<or> (\<exists>m. fst (post_history_email flt u n title email tbl) = NextErr (JsError m))"
    using refused [of u "the title" "the email" n]
    by (auto simp: post_history_email_def Let_def split: option.splits)
  then show "status (respond_history dev (fst (post_history_email flt u n title email tbl))) \<noteq> 201"
    by (auto simp: respond_history_def error_middleware_def reply_def)
  show "snd (post_history_email flt u n title email tbl) = tbl"
    using refused [of u "the title" "the email" n]
    by (auto simp: post_history_email_def Let_def split: option.splits)
  show "filter (\<lambda>r. he_email r = ''c@x.id'') history_sample = []"
    by (simp add: history_sample_def)
  show eval: "post_history_email no_fault ''h3'' 12 (Some ''Sore'') (Some ''c@x.id'') history_sample
       = (NextErr (JsError ''Column message cannot be null''), history_sample)"
    by (simp add: post_history_email_def insert_history_def no_fault_def history_sample_def)
  show "respond_history False
        (fst (post_history_email no_fault ''h3'' 12 (Some ''Sore'') (Some ''c@x.id'') history_sample))
       = reply 500 (JObj [(''status'', JStr ''error''), (''message'', JStr ''Internal server error''),
                          (''error'', JStr ''Something went wrong'')])"
    unfolding eval by (simp add: respond_history_def error_middleware_def)
qed

section \<open>Attaching a message\<close>

text \<open>
  C6. For a non-empty message, a given is_speech_to_text and an email that has no
  identity row, \<open>POST /api/history/:email\<close> writes nothing, whatever the database
  answers, and the response is 404 when the lookup goes through. Both files.
\<close>

theorem attach_message_unknown_email:
  assumes "\<not> falsy message" and "is_speech_to_text \<noteq> None"
  shows "(History_findOne e db = None \<longrightarrow>
            snd (post_history_message_riwayat flt u n e message is_speech_to_text db) = db
          \<and> (flt 0 = None \<longrightarrow>
                fst (post_history_message_riwayat flt u n e message is_speech_to_text db)
                  = reply 404 (message_only (''History dengan email '' @ e @ '' tidak ditemukan''))))
       \<and> (find (\<lambda>r. he_email r = e) tbl = None \<longrightarrow>
            snd (post_history_message flt n e message is_speech_to_text tbl) = tbl
          \<and> (flt 0 = None \<longrightarrow>
                fst (post_history_message flt n e message is_speech_to_text tbl)
                  = Sent (reply 404 (error_body (''Tidak ditemukan history dengan email '' @ e)))))"
  using assms
  by (auto simp: post_history_message_riwayat_def post_history_message_def not_found_riwayat_def
      Let_def split: option.splits)

text \<open>An email that neither sample state knows.\<close>

theorem attach_message_unknown_email_witness:
  "History_findOne ''z@x.id'' riwayat_sample = None
   \<and> post_history_message_riwayat no_fault ''m9'' 20 ''z@x.id'' (Some ''halo'') (Some True) riwayat_sample
       = (reply 404 (message_only ''History dengan email z@x.id tidak ditemukan''), riwayat_sample)
   \<and> find (\<lambda>r. he_email r = ''z@x.id'') history_sample = None
   \<and> post_history_message no_fault 20 ''z@x.id'' (Some ''halo'') (Some True) history_sample
       = (Sent (reply 404 (error_body ''Tidak ditemukan history dengan email z@x.id'')), history_sample)"
proof -
  have m: "\<not> falsy (Some ''halo'')" and s: "Some True \<noteq> None" by simp_all
  have r: "History_findOne ''z@x.id'' riwayat_sample = None"
    by (simp add: History_findOne_def riwayat_sample_def)
  have h: "find (\<lambda>r. he_email r = ''z@x.id'') history_sample = None"
    by (simp add: history_sample_def)
  have f: "no_fault 0 = None" by (simp add: no_fault_def)
  from attach_message_unknown_email [OF m s, where e = "''z@x.id''" and db = riwayat_sample
      and tbl = history_sample and flt = no_fault and u = "''m9''" and n = 20] r h f
  show ?thesis by (simp add: prod_eq_iff)
qed

text \<open>
  In a table whose ids are distinct (\<open>id\<close> is the primary key), the row that
  \<open>findOne\<close> returns is the only row with its id.
\<close>

lemma find_in_set: "find P xs = Some x \<Longrightarrow> x \<in> set xs \<and> P x"
  by (induction xs) (auto split: if_splits)

lemma same_id_same_row:
  "distinct (map he_id tbl) \<Longrightarrow> h \<in> set tbl \<Longrightarrow> r \<in> set tbl \<Longrightarrow> he_id r = he_id h \<Longrightarrow> r = h"
  by (meson distinct_map inj_onD)

lemma save_history_distinct:
  assumes "distinct (map he_id tbl)" and "h \<in> set tbl" and "he_id h' = he_id h"
  shows "save_history h' tbl
           = map (\<lambda>r. if r = h
                       then r\<lparr>he_message := he_message h',
                              he_is_speech_to_text := he_is_speech_to_text h',
                              he_created_at := he_created_at h'\<rparr>
                       else r) tbl"
  unfolding save_history_def
proof (rule map_cong [OF refl])
  fix r assume "r \<in> set tbl"
  with assms have "he_id r = he_id h' \<longleftrightarrow> r = h"
    using same_id_same_row by auto
  then show "(if he_id r = he_id h'
              then r\<lparr>he_message := he_message h', he_is_speech_to_text := he_is_speech_to_text h',
                     he_created_at := he_created_at h'\<rparr> else r)
           = (if r = h
              then r\<lparr>he_message := he_message h', he_is_speech_to_text := he_is_speech_to_text h',
                     he_created_at := he_created_at h'\<rparr> else r)"
    by simp
qed

lemma save_history_columns:
  "map he_id (save_history h tbl) = map he_id tbl
   \<and> map he_title (save_history h tbl) = map he_title tbl
   \<and> map he_email (save_history h tbl) = map he_email tbl"
  by (induction tbl) (auto simp: save_history_def)

text \<open>
  C8. In history.js, for an email whose first row is \<open>h\<close>, a non-empty message and a
  given is_speech_to_text: whatever the database answers, every row keeps its id, title
  and email, in the same order. When both statements go through, the answer is 200 with
  the updated entry, and the table differs from the old one only in the row \<open>h\<close>, where
  message, is_speech_to_text and created_at are the new ones. When a statement is
  rejected, the table is unchanged.
\<close>

theorem attach_message_frame:
  assumes "distinct (map he_id tbl)"
    and "find (\<lambda>r. he_email r = e) tbl = Some h"
    and "m \<noteq> []"
  shows "map he_id (snd (post_history_message flt n e (Some m) (Some b) tbl)) = map he_id tbl
       \<and> map he_title (snd (post_history_message flt n e (Some m) (Some b) tbl)) = map he_title tbl
       \<and> map he_email (snd (post_history_message flt n e (Some m) (Some b) tbl)) = map he_email tbl
       \<and> (flt 0 = None \<and> flt 1 = None \<longrightarrow>
            post_history_message flt n e (Some m) (Some b) tbl
              = (Sent (reply 200
                   (JObj [(''status'', JStr ''success update data''),
                          (''data'', history_entry_json
                             (h\<lparr>he_message := Some m, he_is_speech_to_text := Some b,
                                he_created_at := n\<rparr>))])),
                 map (\<lambda>r. if r = h
                           then r\<lparr>he_message := Some m, he_is_speech_to_text := Some b,
                                  he_created_at := n\<rparr>
                           else r) tbl))
       \<and> (flt 0 \<noteq> None \<or> flt 1 \<noteq> None \<longrightarrow>
            snd (post_history_message flt n e (Some m) (Some b) tbl) = tbl)"
proof -
  let ?h' = "h\<lparr>he_message := Some m, he_is_speech_to_text := Some b, he_created_at := n\<rparr>"
  from assms(2) have mem: "h \<in> set tbl" by (simp add: find_in_set)
  have saved: "save_history ?h' tbl
      = map (\<lambda>r. if r = h
                  then r\<lparr>he_message := Some m, he_is_speech_to_text := Some b, he_created_at := n\<rparr>
                  else r) tbl"
    using save_history_distinct [OF assms(1) mem, of ?h'] by simp
  have cases: "snd (post_history_message flt n e (Some m) (Some b) tbl) = tbl
             \<or> snd (post_history_message flt n e (Some m) (Some b) tbl) = save_history ?h' tbl"
    using assms(2,3) by (auto simp: post_history_message_def Let_def split: option.splits)
  have cols: "map he_id (snd (post_history_message flt n e (Some m) (Some b) tbl)) = map he_id tbl
       \<and> map he_title (snd (post_history_message flt n e (Some m) (Some b) tbl)) = map he_title tbl
       \<and> map he_email (snd (post_history_message flt n e (Some m) (Some b) tbl)) = map he_email tbl"
    using cases save_history_columns [of ?h' tbl] by auto
  have ok: "flt 0 = None \<and> flt 1 = None \<longrightarrow>
            post_history_message flt n e (Some m) (Some b) tbl
              = (Sent (reply 200
                   (JObj [(''status'', JStr ''success update data''),
                          (''data'', history_entry_json ?h')])),
                 save_history ?h' tbl)"
    using assms(2,3) by (simp add: post_history_message_def Let_def)
  have bad: "flt 0 \<noteq> None \<or> flt 1 \<noteq> None \<longrightarrow>
            snd (post_history_message flt n e (Some m) (Some b) tbl) = tbl"
    using assms(2,3) by (auto simp: post_history_message_def Let_def split: option.splits)
  from cols ok bad saved show ?thesis by simp
qed

text \<open>The first sample row gets a new message; the second row is as before.\<close>

theorem attach_message_frame_witness:
  "distinct (map he_id history_sample)
   \<and> find (\<lambda>r. he_email r = ''a@x.id'') history_sample
       = Some \<lparr>he_id = ''h1'', he_title = ''Halo'', he_message = Some ''apa kabar'',
               he_is_speech_to_text = Some True, he_email = ''a@x.id'', he_created_at = 5\<rparr>
   \<and> snd (post_history_message no_fault 30 ''a@x.id'' (Some ''sampai jumpa'') (Some False) history_sample)
       = [\<lparr>he_id = ''h1'', he_title = ''Halo'', he_message = Some ''sampai jumpa'',
           he_is_speech_to_text = Some False, he_email = ''a@x.id'', he_created_at = 30\<rparr>,
          \<lparr>he_id = ''h2'', he_title = ''Pagi'', he_message = Some ''selamat pagi'',
           he_is_speech_to_text = Some False, he_email = ''b@x.id'', he_created_at = 9\<rparr>]"
proof -
  have d: "distinct (map he_id history_sample)" by (simp add: history_sample_def)
  have f: "find (\<lambda>r. he_email r = ''a@x.id'') history_sample
       = Some \<lparr>he_id = ''h1'', he_title = ''Halo'', he_message = Some ''apa kabar'',
               he_is_speech_to_text = Some True, he_email = ''a@x.id'', he_created_at = 5\<rparr>"
    by (simp add: history_sample_def)
  have m: "''sampai jumpa'' \<noteq> []" by simp
  have nf: "no_fault 0 = None \<and> no_fault 1 = None" by (simp add: no_fault_def)
  from attach_message_frame [OF d f m, of no_fault 30 False] nf
  have "snd (post_history_message no_fault 30 ''a@x.id'' (Some ''sampai jumpa'') (Some False) history_sample)
      = map (\<lambda>r. if r = \<lparr>he_id = ''h1'', he_title = ''Halo'', he_message = Some ''apa kabar'',
               he_is_speech_to_text = Some True, he_email = ''a@x.id'', he_created_at = 5\<rparr>
                  then r\<lparr>he_message := Some ''sampai jumpa'', he_is_speech_to_text := Some False,
                         he_created_at := 30\<rparr>
                  else r) history_sample"
    by simp
  then show ?thesis using d f by (simp add: history_sample_def)
qed

section \<open>Creating a soundboard\<close>

text \<open>
  C2. \<open>POST /api/soundboards\<close> with a non-empty text: when the synthesis or the
  upload fails (the client or the bucket was not constructed, or the service rejects the
  call), the database is unchanged and the response, made by the error middleware, is
  500. And for every request: when the table of soundboards is not the one before, the
  synthesis and the upload both succeeded and the response is 201.
\<close>

theorem soundboard_all_or_nothing:
  "(\<not> falsy tx \<and>
      ((\<exists>err. generateSpeech c (the tx) = Inl err)
        \<or> (\<exists>err audio. generateSpeech c (the tx) = Inr audio
               \<and> uploadToGCS c audio (file_uuid @ ''.mp3'') ''audio/mpeg'' = Inl err))
      \<longrightarrow> snd (post_soundboards c flt file_uuid row_uuid n tx db) = db
        \<and> status (respond dev (fst (post_soundboards c flt file_uuid row_uuid n tx db))) = 500)
   \<and> (tbl_soundboards (snd (post_soundboards c flt file_uuid row_uuid n tx db)) \<noteq> tbl_soundboards db
      \<longrightarrow> (\<exists>audio url. generateSpeech c (the tx) = Inr audio
             \<and> uploadToGCS c audio (file_uuid @ ''.mp3'') ''audio/mpeg'' = Inr url
             \<and> tbl_soundboards (snd (post_soundboards c flt file_uuid row_uuid n tx db))
                 = tbl_soundboards db
                   @ [\<lparr>sb_id = row_uuid, sb_text = the tx, sb_audioUrl = url,
                       sb_fileName = file_uuid @ ''.mp3'', sb_createdAt = n, sb_updatedAt = n\<rparr>])
          \<and> status (respond dev (fst (post_soundboards c flt file_uuid row_uuid n tx db))) = 201)"
proof (intro conjI impI)
  assume a: "\<not> falsy tx \<and>
      ((\<exists>err. generateSpeech c (the tx) = Inl err)
        \<or> (\<exists>err audio. generateSpeech c (the tx) = Inr audio
               \<and> uploadToGCS c audio (file_uuid @ ''.mp3'') ''audio/mpeg'' = Inl err))"
  then show "snd (post_soundboards c flt file_uuid row_uuid n tx db) = db"
    by (auto simp: post_soundboards_def Let_def)
  have e500: "\<And>err. (\<exists>m. err = JsError m) \<Longrightarrow> status (error_middleware_capstone dev err) = 500"
    by (auto simp: error_middleware_capstone_def reply_def)
  have g: "\<And>err. generateSpeech c (the tx) = Inl err \<Longrightarrow> \<exists>m. err = JsError m"
    by (auto simp: generateSpeech_def split: if_splits sum.splits)
  have u: "\<And>err audio. uploadToGCS c audio (file_uuid @ ''.mp3'') ''audio/mpeg'' = Inl err
             \<Longrightarrow> \<exists>m. err = JsError m"
    by (auto simp: uploadToGCS_def split: if_splits option.splits)
  from a show "status (respond dev (fst (post_soundboards c flt file_uuid row_uuid n tx db))) = 500"
    using e500 g u by (auto simp: post_soundboards_def Let_def respond_def)
next
  assume a: "tbl_soundboards (snd (post_soundboards c flt file_uuid row_uuid n tx db))
               \<noteq> tbl_soundboards db"
  then show "\<exists>audio url. generateSpeech c (the tx) = Inr audio
             \<and> uploadToGCS c audio (file_uuid @ ''.mp3'') ''audio/mpeg'' = Inr url
             \<and> tbl_soundboards (snd (post_soundboards c flt file_uuid row_uuid n tx db))
                 = tbl_soundboards db
                   @ [\<lparr>sb_id = row_uuid, sb_text = the tx, sb_audioUrl = url,
                       sb_fileName = file_uuid @ ''.mp3'', sb_createdAt = n, sb_updatedAt = n\<rparr>]"
    by (auto simp: post_soundboards_def Let_def split: if_splits sum.splits option.splits)
  from a show "status (respond dev (fst (post_soundboards c flt file_uuid row_uuid n tx db))) = 201"
    by (auto simp: post_soundboards_def Let_def respond_def reply_def
        split: if_splits sum.splits option.splits)
qed

text \<open>
  The bucket rejects the upload: 500 and no row. Everything succeeds: 201 and one row.
\<close>

theorem soundboard_all_or_nothing_witness:
  "\<not> falsy (Some ''selamat pagi'')
   \<and> uploadToGCS (cloud_ok\<lparr>file_save := Some ''quota''\<rparr>) [73, 68, 51] (''f1'' @ ''.mp3'') ''audio/mpeg''
       = Inl (JsError ''Error uploading to Google Cloud Storage: quota'')
   \<and> snd (post_soundboards (cloud_ok\<lparr>file_save := Some ''quota''\<rparr>) no_fault ''f1'' ''s1'' 40
             (Some ''selamat pagi'') capstone_sample) = capstone_sample
   \<and> status (respond False (fst (post_soundboards (cloud_ok\<lparr>file_save := Some ''quota''\<rparr>) no_fault
             ''f1'' ''s1'' 40 (Some ''selamat pagi'') capstone_sample))) = 500
   \<and> tbl_soundboards (snd (post_soundboards cloud_ok no_fault ''f1'' ''s1'' 40
             (Some ''selamat pagi'') capstone_sample))
       = [\<lparr>sb_id = ''s1'', sb_text = ''selamat pagi'',
           sb_audioUrl = ''https://storage.googleapis.com/handlips/f1.mp3'',
           sb_fileName = ''f1.mp3'', sb_createdAt = 40, sb_updatedAt = 40\<rparr>]
   \<and> status (respond False (fst (post_soundboards cloud_ok no_fault ''f1'' ''s1'' 40
             (Some ''selamat pagi'') capstone_sample))) = 201"
proof -
  have t: "\<not> falsy (Some ''selamat pagi'')" by simp
  have g: "generateSpeech (cloud_ok\<lparr>file_save := Some ''quota''\<rparr>) (the (Some ''selamat pagi''))
             = Inr [73, 68, 51]"
    by (simp add: generateSpeech_def cloud_ok_def)
  have u: "uploadToGCS (cloud_ok\<lparr>file_save := Some ''quota''\<rparr>) [73, 68, 51] (''f1'' @ ''.mp3'') ''audio/mpeg''
       = Inl (JsError ''Error uploading to Google Cloud Storage: quota'')"
    by (simp add: uploadToGCS_def cloud_ok_def)
  have changed: "tbl_soundboards (snd (post_soundboards cloud_ok no_fault ''f1'' ''s1'' 40
             (Some ''selamat pagi'') capstone_sample)) \<noteq> tbl_soundboards capstone_sample"
    by (simp add: post_soundboards_def generateSpeech_def uploadToGCS_def cloud_ok_def
        no_fault_def capstone_sample_def Let_def)
  have url: "uploadToGCS cloud_ok [73, 68, 51] (''f1'' @ ''.mp3'') ''audio/mpeg''
       = Inr ''https://storage.googleapis.com/handlips/f1.mp3''"
    by (simp add: uploadToGCS_def cloud_ok_def)
  have g2: "generateSpeech cloud_ok (the (Some ''selamat pagi'')) = Inr [73, 68, 51]"
    by (simp add: generateSpeech_def cloud_ok_def)
  note bad = soundboard_all_or_nothing [where tx = "Some ''selamat pagi''"
      and c = "cloud_ok\<lparr>file_save := Some ''quota''\<rparr>" and file_uuid = "''f1''" and row_uuid = "''s1''"
      and flt = no_fault and n = 40 and db = capstone_sample and dev = False]
  note good = soundboard_all_or_nothing [where tx = "Some ''selamat pagi''"
      and c = cloud_ok and file_uuid = "''f1''" and row_uuid = "''s1''"
      and flt = no_fault and n = 40 and db = capstone_sample and dev = False]
  from bad t g u have b1: "snd (post_soundboards (cloud_ok\<lparr>file_save := Some ''quota''\<rparr>) no_fault ''f1'' ''s1'' 40
             (Some ''selamat pagi'') capstone_sample) = capstone_sample"
    and b2: "status (respond False (fst (post_soundboards (cloud_ok\<lparr>file_save := Some ''quota''\<rparr>) no_fault
             ''f1'' ''s1'' 40 (Some ''selamat pagi'') capstone_sample))) = 500"
    by blast+
  from good changed g2 url have g3: "tbl_soundboards (snd (post_soundboards cloud_ok no_fault ''f1'' ''s1'' 40
             (Some ''selamat pagi'') capstone_sample))
       = tbl_soundboards capstone_sample @ [\<lparr>sb_id = ''s1'', sb_text = ''selamat pagi'',
           sb_audioUrl = ''https://storage.googleapis.com/handlips/f1.mp3'',
           sb_fileName = ''f1.mp3'', sb_createdAt = 40, sb_updatedAt = 40\<rparr>]"
    and g4: "status (respond False (fst (post_soundboards cloud_ok no_fault ''f1'' ''s1'' 40
             (Some ''selamat pagi'') capstone_sample))) = 201"
    by auto
  from t u b1 b2 g3 g4 show ?thesis by (simp add: capstone_sample_def)
qed

section \<open>Feedback\<close>

text \<open>
  C4. \<open>POST /api/feedback\<close>, whatever fields the body has. A body whose comment is
  missing or empty, or whose rating is missing or outside 1..4, is answered with 400 and
  the database is untouched, whatever the database would answer: the INSERT is not
  reached. With the INSERT accepted, the answer is 201 exactly when the comment is
  non-empty and the rating is between 1 and 4, and then one row with this comment and
  rating is appended.
\<close>

theorem feedback_rating_bounds:
  "(falsy comment \<or> rating = None \<or> the rating < 1 \<or> 4 < the rating \<longrightarrow>
      status (respond dev (fst (post_feedback flt n comment rating db))) = 400
    \<and> snd (post_feedback flt n comment rating db) = db)
   \<and> (flt 0 = None \<longrightarrow>
        (status (respond dev (fst (post_feedback flt n comment rating db))) = 201
           \<longleftrightarrow> (\<exists>c r. comment = Some c \<and> c \<noteq> [] \<and> rating = Some r \<and> 1 \<le> r \<and> r \<le> 4)))
   \<and> (\<forall>c r. flt 0 = None \<and> comment = Some c \<and> c \<noteq> [] \<and> rating = Some r \<and> 1 \<le> r \<and> r \<le> 4 \<longrightarrow>
        tbl_feedback (snd (post_feedback flt n comment rating db))
          = tbl_feedback db
            @ [\<lparr>fb_id = next_id (map fb_id (tbl_feedback db)), fb_comment = c, fb_rating = r,
                fb_created_at = n, fb_updated_at = n\<rparr>]
      \<and> body (respond dev (fst (post_feedback flt n comment rating db)))
          = JObj [(''success'', JBool True),
                  (''data'', JObj [(''id'', JNum (int (next_id (map fb_id (tbl_feedback db))))),
                                   (''comment'', JStr c), (''rating'', JNum r)])])"
proof (intro conjI impI allI)
  assume a: "falsy comment \<or> rating = None \<or> the rating < 1 \<or> 4 < the rating"
  then show "status (respond dev (fst (post_feedback flt n comment rating db))) = 400"
    by (cases rating) (auto simp: post_feedback_def respond_def reply_def)
  from a show "snd (post_feedback flt n comment rating db) = db"
    by (cases rating) (auto simp: post_feedback_def)
next
  assume f: "flt 0 = None"
  show "status (respond dev (fst (post_feedback flt n comment rating db))) = 201
           \<longleftrightarrow> (\<exists>c r. comment = Some c \<and> c \<noteq> [] \<and> rating = Some r \<and> 1 \<le> r \<and> r \<le> 4)"
  proof (cases comment)
    case None
    then show ?thesis by (simp add: post_feedback_def respond_def reply_def)
  next
    case c: (Some c)
    show ?thesis
    proof (cases rating)
      case None
      with c show ?thesis by (simp add: post_feedback_def respond_def reply_def)
    next
      case (Some r)
      with c f show ?thesis
        by (auto simp: post_feedback_def respond_def reply_def Let_def)
    qed
  qed
next
  fix c r
  assume a: "flt 0 = None \<and> comment = Some c \<and> c \<noteq> [] \<and> rating = Some r \<and> 1 \<le> r \<and> r \<le> 4"
  then show "tbl_feedback (snd (post_feedback flt n comment rating db))
          = tbl_feedback db
            @ [\<lparr>fb_id = next_id (map fb_id (tbl_feedback db)), fb_comment = c, fb_rating = r,
                fb_created_at = n, fb_updated_at = n\<rparr>]"
    by (auto simp: post_feedback_def Let_def)
  from a show "body (respond dev (fst (post_feedback flt n comment rating db)))
          = JObj [(''success'', JBool True),
                  (''data'', JObj [(''id'', JNum (int (next_id (map fb_id (tbl_feedback db))))),
                                   (''comment'', JStr c), (''rating'', JNum r)])]"
    by (auto simp: post_feedback_def Let_def respond_def reply_def)
qed

text \<open>The ratings 1 and 4 are accepted, 0 and 5 are refused.\<close>

theorem feedback_rating_bounds_witness:
  "status (respond False (fst (post_feedback no_fault 50 (Some ''Aplikasi sangat membantu'') (Some 1)
             capstone_sample))) = 201
   \<and> status (respond False (fst (post_feedback no_fault 50 (Some ''Aplikasi sangat membantu'') (Some 4)
             capstone_sample))) = 201
   \<and> tbl_feedback (snd (post_feedback no_fault 50 (Some ''Aplikasi sangat membantu'') (Some 4)
             capstone_sample))
       = [\<lparr>fb_id = 1, fb_comment = ''Aplikasi sangat membantu'', fb_rating = 4,
           fb_created_at = 50, fb_updated_at = 50\<rparr>]
   \<and> status (respond False (fst (post_feedback no_fault 50 (Some ''Aplikasi sangat membantu'') (Some 0)
             capstone_sample))) = 400
   \<and> snd (post_feedback no_fault 50 (Some ''Aplikasi sangat membantu'') (Some 0) capstone_sample)
       = capstone_sample
   \<and> status (respond False (fst (post_feedback no_fault 50 (Some ''Aplikasi sangat membantu'') (Some 5)
             capstone_sample))) = 400
   \<and> snd (post_feedback no_fault 50 (Some ''Aplikasi sangat membantu'') (Some 5) capstone_sample)
       = capstone_sample"
proof -
  have f: "no_fault 0 = None" by (simp add: no_fault_def)
  note w = feedback_rating_bounds [where flt = no_fault and n = 50 and db = capstone_sample
      and dev = False and comment = "Some ''Aplikasi sangat membantu''"]
  from w [where rating = "Some 1"] f
  have r1: "status (respond False (fst (post_feedback no_fault 50 (Some ''Aplikasi sangat membantu'')
             (Some 1) capstone_sample))) = 201"
    by simp
  from w [where rating = "Some 4"] f
  have r4: "status (respond False (fst (post_feedback no_fault 50 (Some ''Aplikasi sangat membantu'')
             (Some 4) capstone_sample))) = 201"
    and row: "tbl_feedback (snd (post_feedback no_fault 50 (Some ''Aplikasi sangat membantu'') (Some 4)
             capstone_sample))
       = [\<lparr>fb_id = 1, fb_comment = ''Aplikasi sangat membantu'', fb_rating = 4,
           fb_created_at = 50, fb_updated_at = 50\<rparr>]"
    by (simp_all add: capstone_sample_def next_id_def)
  from w [where rating = "Some 0"]
  have r0: "status (respond False (fst (post_feedback no_fault 50 (Some ''Aplikasi sangat membantu'')
             (Some 0) capstone_sample))) = 400
    \<and> snd (post_feedback no_fault 50 (Some ''Aplikasi sangat membantu'') (Some 0) capstone_sample)
       = capstone_sample"
    by simp
  from w [where rating = "Some 5"]
  have r5: "status (respond False (fst (post_feedback no_fault 50 (Some ''Aplikasi sangat membantu'')
             (Some 5) capstone_sample))) = 400
    \<and> snd (post_feedback no_fault 50 (Some ''Aplikasi sangat membantu'') (Some 5) capstone_sample)
       = capstone_sample"
    by simp
  from r1 r4 row r0 r5 show ?thesis by blast
qed

section \<open>The profile\<close>












text \<open>
  C10. \<open>PUT /api/profile\<close> with a name and no file, the UPDATE accepted: the answer
  is 200, its body reports \<open>profile_picture_url\<close> as \<open>null\<close> whatever the row
  holds, and the picture of every row is the one of before. Both copies.
\<close>

theorem profile_without_file_reports_null:
  assumes "\<not> falsy name" and "flt 0 = None"
  shows "fst (put_profile dev c flt n name None db)
           = reply 200
               (JObj [(''success'', JBool True),
                      (''data'', JObj [(''name'', JStr (the name)), (''profile_picture_url'', JNull)])])
       \<and> map pr_profile_picture_url (tbl_profile (snd (put_profile dev c flt n name None db)))
           = map pr_profile_picture_url (tbl_profile db)
       \<and> fst (put_profile_first c flt n name None db)
           = reply 200
               (JObj [(''success'', JBool True),
                      (''data'', JObj [(''name'', JStr (the name)), (''profile_picture_url'', JNull)])])
       \<and> map pr_profile_picture_url (tbl_profile (snd (put_profile_first c flt n name None db)))
           = map pr_profile_picture_url (tbl_profile db)"
proof -
  have keep: "map pr_profile_picture_url (update_profile (the name) None n rows)
                = map pr_profile_picture_url rows" for rows
    by (induction rows) (simp_all add: update_profile_def)
  have keep_first: "map pr_profile_picture_url (update_profile_first (the name) None rows)
                = map pr_profile_picture_url rows" for rows
    by (induction rows) (simp_all add: update_profile_first_def)
  from assms keep keep_first show ?thesis
    by (simp add: put_profile_def put_profile_handler_def put_profile_first_def upload_single_def
        respond_def profile_data_def json_opt_str_def)
qed

text \<open>The sample row holds a picture; the response says \<open>null\<close> and the row keeps it.\<close>

theorem profile_without_file_reports_null_witness:
  "map pr_profile_picture_url (tbl_profile capstone_sample) = [Some ''https://old/p.png'']
   \<and> body (fst (put_profile False cloud_ok no_fault 60 (Some ''Siti'') None capstone_sample))
       = JObj [(''success'', JBool True),
               (''data'', JObj [(''name'', JStr ''Siti''), (''profile_picture_url'', JNull)])]
   \<and> map pr_profile_picture_url
        (tbl_profile (snd (put_profile False cloud_ok no_fault 60 (Some ''Siti'') None capstone_sample)))
       = [Some ''https://old/p.png'']
   \<and> body (fst (put_profile_first cloud_ok no_fault 60 (Some ''Siti'') None capstone_sample))
       = JObj [(''success'', JBool True),
               (''data'', JObj [(''name'', JStr ''Siti''), (''profile_picture_url'', JNull)])]"
proof -
  have nm: "\<not> falsy (Some ''Siti'')" and f: "no_fault 0 = None"
    by (simp_all add: no_fault_def)
  have p: "map pr_profile_picture_url (tbl_profile capstone_sample) = [Some ''https://old/p.png'']"
    by (simp add: capstone_sample_def)
  from profile_without_file_reports_null [where name = "Some ''Siti''" and flt = no_fault
      and dev = False and c = cloud_ok and n = 60 and db = capstone_sample, OF nm f] p
  show ?thesis by (simp add: reply_def)
qed

section \<open>Listing the history\<close>

text \<open>
  C5, evaluated. On two rows, \<open>GET /api/history\<close> of history.js answers 200 with
  both entries, the newest first (is_speech_to_text as the raw SELECT hands it back). The handler of the capstone application answers 200
  with \<open>data\<close> holding the newest row alone, as an object and not as a list, and on
  an empty table its 200 response has no \<open>data\<close> at all.
\<close>

theorem list_all_capstone_first_row_only:
  "fst (get_history no_fault history_sample)
     = Sent (reply 200
         (JObj [(''status'', JStr ''success get data''),
                (''data'', JArr
                   [JObj [(''id'', JStr ''h2''), (''email'', JStr ''b@x.id''), (''title'', JStr ''Pagi''),
                          (''message'', JArr [JObj [(''text'', JStr ''selamat pagi''),
                                                    (''created_at'', JNum 9),
                                                    (''is_speech_to_text'', JNum 0)]]),
                          (''detection_type'', JStr ''Gesture Detection'')],
                    JObj [(''id'', JStr ''h1''), (''email'', JStr ''a@x.id''), (''title'', JStr ''Halo''),
                          (''message'', JArr [JObj [(''text'', JStr ''apa kabar''), (''created_at'', JNum 5),
                                                    (''is_speech_to_text'', JNum 1)]]),
                          (''detection_type'', JStr ''Speech to Text'')]])]))
   \<and> length (tbl_history capstone_sample) = 2
   \<and> fst (get_history_capstone no_fault capstone_sample)
     = Sent (reply 200
         (JObj [(''success'', JBool True),
                (''data'', JObj [(''id'', JNum 2), (''title'', JStr ''Judul kedua''),
                                 (''message'', JStr ''Pesan kedua''), (''created_at'', JNum 20),
                                 (''updated_at'', JNum 20)])]))
   \<and> fst (get_history_capstone no_fault (capstone_sample\<lparr>tbl_history := []\<rparr>))
     = Sent (reply 200 (JObj [(''success'', JBool True)]))"
  by (simp add: get_history_def get_history_capstone_def order_by_desc_def no_fault_def
      history_sample_def capstone_sample_def formatted_all_def message_json_raw_def
      detection_type_def json_opt_str_def json_opt_tinyint_def capstone_history_json_def)

text \<open>
  For comparison, \<open>GET /api/history\<close> of history.js on any table that has a row and
  with the SELECT accepted: 200, and \<open>data\<close> lists every row, the newest first.
\<close>

lemma order_by_desc_all_rows:
  "set (order_by_desc f rows) = set rows
   \<and> length (order_by_desc f rows) = length rows
   \<and> sorted_wrt (\<lambda>a b. f b \<le> f a) (order_by_desc f rows)"
proof -
  have "sorted_wrt (\<lambda>a b. f a \<le> f b) (sort_key f rows)"
    using sorted_sort_key [of f rows] by (simp add: sorted_map)
  then show ?thesis
    by (simp add: order_by_desc_def sorted_wrt_rev)
qed

lemma get_history_lists_all:
  "flt 0 = None \<Longrightarrow> tbl \<noteq> [] \<Longrightarrow>
     get_history flt tbl
       = (Sent (reply 200
            (JObj [(''status'', JStr ''success get data''),
                   (''data'', JArr (map formatted_all (order_by_desc he_created_at tbl)))])),
          tbl)"
  using order_by_desc_all_rows [of he_created_at tbl]
  by (auto simp: get_history_def Let_def)

section \<open>The two DELETE routes of history.js\<close>

text \<open>
  C9. history.js registers two handlers for \<open>DELETE /api/history/:email\<close>. For every
  request and every path matcher, the second handler (the lookup by primary key) is not
  among the layers that ran. For every DELETE request whose url matches the pattern, the
  first handler ran, and the response and the table are what it made of the request: the
  response it sent, or, when it handed an error to \<open>next\<close>, the answer of the error
  middleware to that error.
\<close>

theorem second_delete_handler_never_runs:
  "Ran DeleteByPk \<notin> set (fst (dispatch mt routes e req tbl))
   \<and> (req_method req = DELETE \<and> mt ''/api/history/:email'' (req_url req) = Some ps \<longrightarrow>
        dispatch mt routes e req tbl
          = (case delete_history_by_email (env_fault e) (param_email ps) tbl of
               (Sent res, tbl') \<Rightarrow> ([Ran DeleteByEmail], res, tbl')
             | (NextErr err, tbl') \<Rightarrow>
                 ([Ran DeleteByEmail, ErrorMiddleware],
                  error_middleware (env_development e) err, tbl')))"
proof
  show "Ran DeleteByPk \<notin> set (fst (dispatch mt routes e req tbl))"
    by (cases "req_method req")
      (auto simp: routes_def split: option.splits prod.splits outcome.splits)
  show "req_method req = DELETE \<and> mt ''/api/history/:email'' (req_url req) = Some ps \<longrightarrow>
        dispatch mt routes e req tbl
          = (case delete_history_by_email (env_fault e) (param_email ps) tbl of
               (Sent res, tbl') \<Rightarrow> ([Ran DeleteByEmail], res, tbl')
             | (NextErr err, tbl') \<Rightarrow>
                 ([Ran DeleteByEmail, ErrorMiddleware],
                  error_middleware (env_development e) err, tbl'))"
    by (simp add: routes_def)
qed

text \<open>
  A DELETE for the first sample email: the first handler ran alone and destroyed the row
  of that email.
\<close>

theorem second_delete_handler_never_runs_witness:
  "req_method delete_request = DELETE
   \<and> segment_match ''/api/history/:email'' (req_url delete_request) = Some [(''email'', ''a@x.id'')]
   \<and> dispatch segment_match routes env_sample delete_request history_sample
       = ([Ran DeleteByEmail],
          reply 200 (deleted_body ''a@x.id''),
          [\<lparr>he_id = ''h2'', he_title = ''Pagi'', he_message = Some ''selamat pagi'',
            he_is_speech_to_text = Some False, he_email = ''b@x.id'', he_created_at = 9\<rparr>])"
proof -
  have m: "req_method delete_request = DELETE
           \<and> segment_match ''/api/history/:email'' (req_url delete_request) = Some [(''email'', ''a@x.id'')]"
    by (simp add: delete_request_def segment_match_def)
  have d: "delete_history_by_email (env_fault env_sample) (param_email [(''email'', ''a@x.id'')])
             history_sample
           = (Sent (reply 200 (deleted_body ''a@x.id'')),
              [\<lparr>he_id = ''h2'', he_title = ''Pagi'', he_message = Some ''selamat pagi'',
                he_is_speech_to_text = Some False, he_email = ''b@x.id'', he_created_at = 9\<rparr>])"
    by (simp add: delete_history_by_email_def env_sample_def no_fault_def param_email_def
        history_sample_def)
  from second_delete_handler_never_runs [where mt = segment_match and e = env_sample
      and req = delete_request and tbl = history_sample and ps = "[(''email'', ''a@x.id'')]"] m d
  show ?thesis by simp
qed

end
